theory Spec2Isabelle
  imports Complex_Main
begin

section \<open>JavaScript values and the platform\<close>

text \<open>
  The values that \<^verbatim>\<open>JSON.parse\<close> can return, plus \<^verbatim>\<open>undefined\<close> (a missing
  property) and \<^verbatim>\<open>NaN\<close>. The numbers of a stored record are the integers that are
  doubles (\<open>JNum\<close>); stored fractions and infinities are outside the model.
\<close>

datatype jsval =
    JUndefined
  | JNull
  | JBool bool
  | JNum int
  | JNaN
  | JStr string
  | JArr "jsval list"
  | JObj "(string \<times> jsval) list"

text \<open>
  A number as the backoff calculator handles it: a double, that is a finite value, an
  infinity or NaN. The finite values stand for doubles; the sign of zero is not kept.
\<close>

datatype jsnum = Num rat | PosInfinity | NegInfinity | NaN

text \<open>
  \<^verbatim>\<open>Number.MAX_VALUE\<close>, the largest double, and the smallest normal double, below
  which doubles are the multiples of \<open>2 ^ -1074\<close>.
\<close>

definition MAX_VALUE :: rat where
  "MAX_VALUE = (2 ^ 53 - 1) * 2 ^ 971"

definition MIN_NORMAL :: rat where
  "MIN_NORMAL = 1 / 2 ^ 1022"

text \<open>Rounding to the nearest integer, a tie going to the even one.\<close>

definition round_half_even :: "rat \<Rightarrow> int" where
  "round_half_even q =
     (let f = \<lfloor>q\<rfloor>; r = q - of_int f
      in if r < 1 / 2 then f else if 1 / 2 < r then f + 1 else if even f then f else f + 1)"

text \<open>
  \<^verbatim>\<open>x * Math.pow(2, e)\<close> for an integer \<open>e\<close>. The power is \<^verbatim>\<open>Infinity\<close> from
  \<open>e = 1024\<close>, zero below \<open>e = -1074\<close>, and the exact power of two between. The
  product of a double by an exact power of two is exact, unless it leaves the range of
  doubles (it is an infinity then) or, with a negative \<open>e\<close>, falls below the normal
  doubles (it is rounded to a multiple of \<open>2 ^ -1074\<close> then). Zero times
  \<^verbatim>\<open>Infinity\<close> and \<^verbatim>\<open>Infinity\<close> times zero are NaN.
\<close>

definition times_pow2 :: "jsnum \<Rightarrow> int \<Rightarrow> jsnum" where
  "times_pow2 x e =
     (case x of
        NaN \<Rightarrow> NaN
      | PosInfinity \<Rightarrow> if e < - 1074 then NaN else PosInfinity
      | NegInfinity \<Rightarrow> if e < - 1074 then NaN else NegInfinity
      | Num a \<Rightarrow>
          if 1024 \<le> e then
            (if 0 < a then PosInfinity else if a < 0 then NegInfinity else NaN)
          else if e < - 1074 then Num 0
          else if e = 0 then Num a
          else if 0 < e then
            (if MAX_VALUE < a * 2 ^ nat e then PosInfinity
             else if a * 2 ^ nat e < - MAX_VALUE then NegInfinity
             else Num (a * 2 ^ nat e))
          else
            (if \<bar>a / 2 ^ nat (- e)\<bar> < MIN_NORMAL
             then Num (of_int (round_half_even (a / 2 ^ nat (- e) * 2 ^ 1074)) / 2 ^ 1074)
             else Num (a / 2 ^ nat (- e))))"

text \<open>\<^verbatim>\<open>Math.min\<close> of two numbers: NaN as soon as one of them is.\<close>

fun Math_min :: "jsnum \<Rightarrow> jsnum \<Rightarrow> jsnum" where
  "Math_min NaN y = NaN"
| "Math_min x NaN = NaN"
| "Math_min NegInfinity y = NegInfinity"
| "Math_min x NegInfinity = NegInfinity"
| "Math_min PosInfinity y = y"
| "Math_min x PosInfinity = x"
| "Math_min (Num a) (Num b) = Num (min a b)"

text \<open>
  \<^verbatim>\<open>n + 1\<close> for an integer \<open>n\<close> that is a double. The sum is exact up to
  \<open>2 ^ 53\<close> in size. Beyond, up to \<open>2 ^ 54\<close>, the doubles are the even integers and
  \<open>n + 1\<close> lies halfway between two of them: the sum is the one whose half is even.
  From \<open>2 ^ 54\<close> the sum is \<open>n\<close> again.
\<close>

definition double_add1 :: "int \<Rightarrow> int" where
  "double_add1 n =
     (if \<bar>n + 1\<bar> \<le> 9007199254740992 then n + 1
      else if (9007199254740992 \<le> n \<and> n < 18014398509481984)
              \<or> (- 18014398509481984 < n \<and> n < - 9007199254740992)
      then (if n mod 4 = 0 then n else n + 2)
      else n)"

text \<open>ToBoolean, as used by \<^verbatim>\<open>||\<close>, \<^verbatim>\<open>? :\<close>, \<^verbatim>\<open>&&\<close> and \<^verbatim>\<open>if\<close>.\<close>

fun truthy :: "jsval \<Rightarrow> bool" where
  "truthy JUndefined = False"
| "truthy JNull = False"
| "truthy (JBool b) = b"
| "truthy (JNum n) = (n \<noteq> 0)"
| "truthy JNaN = False"
| "truthy (JStr s) = (s \<noteq> [])"
| "truthy (JArr xs) = True"
| "truthy (JObj fs) = True"

text \<open>
  Reading an own property \<^verbatim>\<open>v.name\<close>. On \<^verbatim>\<open>null\<close> and \<^verbatim>\<open>undefined\<close> it throws a
  TypeError (\<open>None\<close>); on a value without that property it yields \<^verbatim>\<open>undefined\<close>. The two
  names the program reads (\<^verbatim>\<open>count\<close>, \<^verbatim>\<open>lastAttempt\<close>) are not inherited from any
  prototype, so only own properties of objects matter.
\<close>

fun js_get :: "jsval \<Rightarrow> string \<Rightarrow> jsval option" where
  "js_get JUndefined name = None"
| "js_get JNull name = None"
| "js_get (JObj fs) name = Some (case map_of fs name of None \<Rightarrow> JUndefined | Some v \<Rightarrow> v)"
| "js_get v name = Some JUndefined"

text \<open>A \<^verbatim>\<open>Date\<close> object: a time value in milliseconds since the epoch, or Invalid Date.\<close>

datatype date = Date int | InvalidDate

definition TimeClip :: "int \<Rightarrow> date" where
  "TimeClip t = (if \<bar>t\<bar> > 8640000000000000 then InvalidDate else Date t)"

datatype error = StorageError

datatype backend = AsyncStorage | SecureStore

datatype call = GetItem string | SetItem string string | RemoveItem string

text \<open>
  The device: the contents of the two key-value stores and the wall clock
  (\<^verbatim>\<open>Date.now()\<close>, in milliseconds).
\<close>

record world =
  asyncStorage :: "string \<rightharpoonup> string"
  secureStore :: "string \<rightharpoonup> string"
  clock :: int

text \<open>
  What the program takes from its platform and libraries, as parameters:
  the JSON codec (\<open>None\<close>: \<^verbatim>\<open>JSON.parse\<close> throws a SyntaxError), the date codec
  (\<open>None\<close>: \<^verbatim>\<open>Date.parse\<close> gives NaN), the string conversion of arrays and objects
  (a parsed object that carries a \<^verbatim>\<open>toString\<close> or \<^verbatim>\<open>valueOf\<close> of its own, on which
  the conversion throws, is outside the model), the numeric conversion of strings
  (\<open>None\<close>: NaN), \<^verbatim>\<open>Platform.OS !== 'web'\<close>, and which calls a store rejects in which
  state of the device.
\<close>

record runtime =
  JSON_parse :: "string \<Rightarrow> jsval option"
  JSON_stringify :: "jsval \<Rightarrow> string"
  Date_parse :: "string \<Rightarrow> int option"
  toISOString :: "int \<Rightarrow> string"
  ObjectToString :: "jsval \<Rightarrow> string"
  StringToNumber :: "string \<Rightarrow> int option"
  isSecureStoreAvailable :: bool
  rejects :: "backend \<Rightarrow> call \<Rightarrow> world \<Rightarrow> bool"

definition ToNumber :: "runtime \<Rightarrow> jsval \<Rightarrow> int option" where
  "ToNumber rt v =
     (case v of
        JUndefined \<Rightarrow> None
      | JNull \<Rightarrow> Some 0
      | JBool b \<Rightarrow> Some (if b then 1 else 0)
      | JNum n \<Rightarrow> Some n
      | JNaN \<Rightarrow> None
      | JStr s \<Rightarrow> StringToNumber rt s
      | JArr xs \<Rightarrow> StringToNumber rt (ObjectToString rt v)
      | JObj fs \<Rightarrow> StringToNumber rt (ObjectToString rt v))"

text \<open>\<^verbatim>\<open>v >= k\<close> for a number \<open>k\<close>: false when \<open>v\<close> converts to NaN.\<close>

definition js_ge :: "runtime \<Rightarrow> jsval \<Rightarrow> int \<Rightarrow> bool" where
  "js_ge rt v k = (case ToNumber rt v of None \<Rightarrow> False | Some n \<Rightarrow> n \<ge> k)"

text \<open>
  \<^verbatim>\<open>v + 1\<close>: concatenation when \<open>v\<close> is a string, an array or an object, the sum
  of doubles otherwise.
\<close>

definition js_add1 :: "runtime \<Rightarrow> jsval \<Rightarrow> jsval" where
  "js_add1 rt v =
     (case v of
        JStr s \<Rightarrow> JStr (s @ ''1'')
      | JArr xs \<Rightarrow> JStr (ObjectToString rt v @ ''1'')
      | JObj fs \<Rightarrow> JStr (ObjectToString rt v @ ''1'')
      | _ \<Rightarrow> (case ToNumber rt v of None \<Rightarrow> JNaN | Some n \<Rightarrow> JNum (double_add1 n)))"

text \<open>\<^verbatim>\<open>new Date(v)\<close> for a value that is not itself a Date.\<close>

definition new_Date :: "runtime \<Rightarrow> jsval \<Rightarrow> date" where
  "new_Date rt v =
     (case v of
        JStr s \<Rightarrow> (case Date_parse rt s of None \<Rightarrow> InvalidDate | Some t \<Rightarrow> Date t)
      | JArr xs \<Rightarrow>
          (case Date_parse rt (ObjectToString rt v) of None \<Rightarrow> InvalidDate | Some t \<Rightarrow> Date t)
      | JObj fs \<Rightarrow>
          (case Date_parse rt (ObjectToString rt v) of None \<Rightarrow> InvalidDate | Some t \<Rightarrow> Date t)
      | _ \<Rightarrow> (case ToNumber rt v of None \<Rightarrow> InvalidDate | Some t \<Rightarrow> TimeClip t))"

text \<open>\<^verbatim>\<open>new Date(d.getTime() + ms)\<close>.\<close>

fun date_plus :: "date \<Rightarrow> int \<Rightarrow> date" where
  "date_plus (Date t) ms = TimeClip (t + ms)"
| "date_plus InvalidDate ms = InvalidDate"

text \<open>The decimal rendering of an integer inside a template literal.\<close>

definition digit_char :: "nat \<Rightarrow> char" where
  "digit_char d = ''0123456789'' ! d"

fun show_nat :: "nat \<Rightarrow> string" where
  "show_nat n = (if n < 10 then [digit_char n] else show_nat (n div 10) @ [digit_char (n mod 10)])"

declare show_nat.simps [simp del]

definition show_int :: "int \<Rightarrow> string" where
  "show_int i = (if i < 0 then CHR ''-'' # show_nat (nat (- i)) else show_nat (nat i))"

section \<open>The key-value stores\<close>

fun items :: "backend \<Rightarrow> world \<Rightarrow> (string \<rightharpoonup> string)" where
  "items AsyncStorage w = asyncStorage w"
| "items SecureStore w = secureStore w"

fun put_items :: "backend \<Rightarrow> (string \<rightharpoonup> string) \<Rightarrow> world \<Rightarrow> world" where
  "put_items AsyncStorage m w = w\<lparr>asyncStorage := m\<rparr>"
| "put_items SecureStore m w = w\<lparr>secureStore := m\<rparr>"

text \<open>
  A call either is rejected, leaving the store as it was, or takes effect on the map.
  The result of an asynchronous operation is the settled promise (\<open>Inl\<close>: rejected)
  with the device afterwards.
\<close>

definition getItem :: "runtime \<Rightarrow> backend \<Rightarrow> string \<Rightarrow> world \<Rightarrow> (error + string option) \<times> world" where
  "getItem rt b key w =
     (if rejects rt b (GetItem key) w then (Inl StorageError, w) else (Inr (items b w key), w))"

definition setItem :: "runtime \<Rightarrow> backend \<Rightarrow> string \<Rightarrow> string \<Rightarrow> world \<Rightarrow> (error + unit) \<times> world" where
  "setItem rt b key v w =
     (if rejects rt b (SetItem key v) w then (Inl StorageError, w)
      else (Inr (), put_items b ((items b w)(key \<mapsto> v)) w))"

definition removeItem :: "runtime \<Rightarrow> backend \<Rightarrow> string \<Rightarrow> world \<Rightarrow> (error + unit) \<times> world" where
  "removeItem rt b key w =
     (if rejects rt b (RemoveItem key) w then (Inl StorageError, w)
      else (Inr (), put_items b ((items b w)(key := None)) w))"

abbreviation AsyncStorage_getItem :: "runtime \<Rightarrow> string \<Rightarrow> world \<Rightarrow> (error + string option) \<times> world" where
  "AsyncStorage_getItem rt \<equiv> getItem rt AsyncStorage"

abbreviation AsyncStorage_setItem :: "runtime \<Rightarrow> string \<Rightarrow> string \<Rightarrow> world \<Rightarrow> (error + unit) \<times> world" where
  "AsyncStorage_setItem rt \<equiv> setItem rt AsyncStorage"

abbreviation AsyncStorage_removeItem :: "runtime \<Rightarrow> string \<Rightarrow> world \<Rightarrow> (error + unit) \<times> world" where
  "AsyncStorage_removeItem rt \<equiv> removeItem rt AsyncStorage"

abbreviation SecureStore_getItemAsync :: "runtime \<Rightarrow> string \<Rightarrow> world \<Rightarrow> (error + string option) \<times> world" where
  "SecureStore_getItemAsync rt \<equiv> getItem rt SecureStore"

abbreviation SecureStore_setItemAsync :: "runtime \<Rightarrow> string \<Rightarrow> string \<Rightarrow> world \<Rightarrow> (error + unit) \<times> world" where
  "SecureStore_setItemAsync rt \<equiv> setItem rt SecureStore"

abbreviation SecureStore_deleteItemAsync :: "runtime \<Rightarrow> string \<Rightarrow> world \<Rightarrow> (error + unit) \<times> world" where
  "SecureStore_deleteItemAsync rt \<equiv> removeItem rt SecureStore"

text \<open>
  \<^verbatim>\<open>Promise.all\<close> over operations that each make one store call: the calls are issued
  in the order of the list, every one of them runs whether or not another is rejected,
  and the result is rejected as soon as one of them is.
\<close>

fun Promise_all :: "(world \<Rightarrow> (error + 'a) \<times> world) list \<Rightarrow> world \<Rightarrow> (error + 'a list) \<times> world" where
  "Promise_all [] w = (Inr [], w)"
| "Promise_all (p # ps) w =
     (case p w of (r, w1) \<Rightarrow>
        (case Promise_all ps w1 of (rs, w2) \<Rightarrow>
           ((case r of
               Inl e \<Rightarrow> Inl e
             | Inr v \<Rightarrow> (case rs of Inl e \<Rightarrow> Inl e | Inr vs \<Rightarrow> Inr (v # vs))), w2)))"

section \<open>Rate limiting (\<^verbatim>\<open>src/utils/delay.js\<close>)\<close>

datatype kind = Login | Register

abbreviation LOGIN_ATTEMPTS :: string where
  "LOGIN_ATTEMPTS \<equiv> ''rate_limit_login_attempts''"

abbreviation REGISTER_ATTEMPTS :: string where
  "REGISTER_ATTEMPTS \<equiv> ''rate_limit_register_attempts''"

abbreviation (input) MAX_LOGIN_ATTEMPTS :: int where "MAX_LOGIN_ATTEMPTS \<equiv> 5"
abbreviation (input) MAX_REGISTER_ATTEMPTS :: int where "MAX_REGISTER_ATTEMPTS \<equiv> 3"
abbreviation (input) LOGIN_COOLDOWN_MINUTES :: int where "LOGIN_COOLDOWN_MINUTES \<equiv> 15"
abbreviation (input) REGISTER_COOLDOWN_MINUTES :: int where "REGISTER_COOLDOWN_MINUTES \<equiv> 5"
abbreviation (input) BASE_DELAY_MS :: jsnum where "BASE_DELAY_MS \<equiv> Num 1000"
abbreviation (input) MAX_DELAY_MS :: jsnum where "MAX_DELAY_MS \<equiv> Num 10000"

text \<open>
  \<^verbatim>\<open>delay(ms)\<close>: the promise resolves once the timer has run, \<open>ms\<close> milliseconds
  later on the clock. The program only ever passes a finite duration (the default
  maximum caps it); a duration that is NaN or an infinity is taken as no wait.
\<close>

fun delay :: "jsnum \<Rightarrow> world \<Rightarrow> (error + unit) \<times> world" where
  "delay (Num ms) w = (Inr (), w\<lparr>clock := clock w + max 0 \<lfloor>ms\<rfloor>\<rparr>)"
| "delay x w = (Inr (), w)"

text \<open>
  \<^verbatim>\<open>baseDelay * Math.pow(2, attemptCount - 1)\<close>, capped by \<^verbatim>\<open>Math.min\<close>, in the
  arithmetic of doubles. The attempt count is an integer; where \<^verbatim>\<open>attemptCount - 1\<close>
  is not exact (beyond \<open>2 ^ 53\<close>) the power is \<^verbatim>\<open>Infinity\<close> or zero either way.
\<close>

definition calculateBackoffDelay :: "int \<Rightarrow> jsnum \<Rightarrow> jsnum \<Rightarrow> jsnum" where
  "calculateBackoffDelay attemptCount baseDelay maxDelay =
     (let exponentialDelay = times_pow2 baseDelay (attemptCount - 1)
      in Math_min exponentialDelay maxDelay)"

record attemptData =
  count :: jsval
  lastAttempt :: "date option"

definition noAttempts :: attemptData where
  "noAttempts = \<lparr>count = JNum 0, lastAttempt = None\<rparr>"

text \<open>
  \<^verbatim>\<open>getAttemptData\<close>: everything inside the \<^verbatim>\<open>try\<close> that throws (the store rejecting,
  a SyntaxError of \<^verbatim>\<open>JSON.parse\<close>, a TypeError on reading a property of \<^verbatim>\<open>null\<close>) is
  caught and logged, and the function falls through to the default record.
\<close>

definition getAttemptData :: "runtime \<Rightarrow> string \<Rightarrow> world \<Rightarrow> attemptData \<times> world" where
  "getAttemptData rt key w =
     (case AsyncStorage_getItem rt key w of
        (Inl e, w1) \<Rightarrow> (noAttempts, w1)
      | (Inr data, w1) \<Rightarrow>
          (case data of
             None \<Rightarrow> (noAttempts, w1)
           | Some s \<Rightarrow>
               if s = [] then (noAttempts, w1)
               else
                 (case JSON_parse rt s of
                    None \<Rightarrow> (noAttempts, w1)
                  | Some parsed \<Rightarrow>
                      (case js_get parsed ''count'' of
                         None \<Rightarrow> (noAttempts, w1)
                       | Some c \<Rightarrow>
                           (case js_get parsed ''lastAttempt'' of
                              None \<Rightarrow> (noAttempts, w1)
                            | Some l \<Rightarrow>
                                (\<lparr>count = (if truthy c then c else JNum 0),
                                  lastAttempt = (if truthy l then Some (new_Date rt l) else None)\<rparr>,
                                 w1))))))"

text \<open>
  \<^verbatim>\<open>storeAttemptData\<close>: the timestamp is the reading of the clock taken by the caller,
  so \<^verbatim>\<open>toISOString\<close> does not throw; a rejected write is caught and logged.
\<close>

definition storeAttemptData :: "runtime \<Rightarrow> string \<Rightarrow> jsval \<Rightarrow> int \<Rightarrow> world \<Rightarrow> world" where
  "storeAttemptData rt key cnt lastAttemptTime w =
     (let data = JObj [(''count'', cnt), (''lastAttempt'', JStr (toISOString rt lastAttemptTime))]
      in case AsyncStorage_setItem rt key (JSON_stringify rt data) w of
           (Inl e, w1) \<Rightarrow> w1
         | (Inr u, w1) \<Rightarrow> w1)"

record rateLimit =
  isLimited :: bool
  waitTime :: int
  message :: string

definition notLimited :: rateLimit where
  "notLimited = \<lparr>isLimited = False, waitTime = 0, message = []\<rparr>"

fun attempts_key :: "kind \<Rightarrow> string" where
  "attempts_key Login = LOGIN_ATTEMPTS"
| "attempts_key Register = REGISTER_ATTEMPTS"

fun max_attempts :: "kind \<Rightarrow> int" where
  "max_attempts Login = MAX_LOGIN_ATTEMPTS"
| "max_attempts Register = MAX_REGISTER_ATTEMPTS"

fun cooldown_minutes :: "kind \<Rightarrow> int" where
  "cooldown_minutes Login = LOGIN_COOLDOWN_MINUTES"
| "cooldown_minutes Register = REGISTER_COOLDOWN_MINUTES"

fun attempts_noun :: "kind \<Rightarrow> string" where
  "attempts_noun Login = ''login''"
| "attempts_noun Register = ''registration''"

text \<open>
  \<^verbatim>\<open>checkLoginRateLimit\<close> and \<^verbatim>\<open>checkRegisterRateLimit\<close> are the same function up to
  the storage key, the two configuration constants and one word of the message; the
  common body takes the kind as a parameter. \<^verbatim>\<open>now < cooldownEndTime\<close> is false when
  the end time is an Invalid Date, which sends that case to the \<^verbatim>\<open>else\<close> branch. The
  \<^verbatim>\<open>removeItem\<close> of that branch is outside any \<^verbatim>\<open>try\<close>: its rejection is the
  function's.
\<close>

definition checkRateLimit :: "runtime \<Rightarrow> kind \<Rightarrow> world \<Rightarrow> (error + rateLimit) \<times> world" where
  "checkRateLimit rt k w =
     (case getAttemptData rt (attempts_key k) w of
        (ad, w1) \<Rightarrow>
          if js_ge rt (count ad) (max_attempts k) then
            (case lastAttempt ad of
               None \<Rightarrow> (Inr notLimited, w1)
             | Some la \<Rightarrow>
                 (case date_plus la (cooldown_minutes k * 60 * 1000) of
                    Date cooldownEndTime \<Rightarrow>
                      if clock w1 < cooldownEndTime then
                        (let wt = \<lceil>rat_of_int (cooldownEndTime - clock w1) / 1000 / 60\<rceil>
                         in (Inr \<lparr>isLimited = True, waitTime = wt,
                                  message = ''Too many '' @ attempts_noun k
                                    @ '' attempts. Please wait '' @ show_int wt
                                    @ '' minutes before trying again.''\<rparr>, w1))
                      else
                        (case AsyncStorage_removeItem rt (attempts_key k) w1 of
                           (Inl e, w2) \<Rightarrow> (Inl e, w2)
                         | (Inr u, w2) \<Rightarrow> (Inr notLimited, w2))
                  | InvalidDate \<Rightarrow>
                      (case AsyncStorage_removeItem rt (attempts_key k) w1 of
                         (Inl e, w2) \<Rightarrow> (Inl e, w2)
                       | (Inr u, w2) \<Rightarrow> (Inr notLimited, w2))))
          else (Inr notLimited, w1))"

definition checkLoginRateLimit :: "runtime \<Rightarrow> world \<Rightarrow> (error + rateLimit) \<times> world" where
  "checkLoginRateLimit rt = checkRateLimit rt Login"

definition checkRegisterRateLimit :: "runtime \<Rightarrow> world \<Rightarrow> (error + rateLimit) \<times> world" where
  "checkRegisterRateLimit rt = checkRateLimit rt Register"

text \<open>
  \<^verbatim>\<open>recordLoginAttempt\<close> and \<^verbatim>\<open>recordRegisterAttempt\<close>, again up to the key. The clock
  is read before the branch on \<^verbatim>\<open>isSuccess\<close>. \<^verbatim>\<open>newCount > 1\<close> compares the numeric
  conversion of \<^verbatim>\<open>newCount\<close> (false on NaN), the same conversion that
  \<^verbatim>\<open>attemptCount - 1\<close> makes inside the calculator, called here with its default base
  and maximum.
\<close>

definition recordAttempt :: "runtime \<Rightarrow> kind \<Rightarrow> bool \<Rightarrow> world \<Rightarrow> (error + unit) \<times> world" where
  "recordAttempt rt k isSuccess w =
     (case getAttemptData rt (attempts_key k) w of
        (ad, w1) \<Rightarrow>
          (let now = clock w1 in
           if isSuccess then AsyncStorage_removeItem rt (attempts_key k) w1
           else
             (let newCount = js_add1 rt (count ad);
                  w2 = storeAttemptData rt (attempts_key k) newCount now w1
              in case ToNumber rt newCount of
                   None \<Rightarrow> (Inr (), w2)
                 | Some n \<Rightarrow>
                     if n > 1 then delay (calculateBackoffDelay n BASE_DELAY_MS MAX_DELAY_MS) w2
                     else (Inr (), w2))))"

definition recordLoginAttempt :: "runtime \<Rightarrow> bool \<Rightarrow> world \<Rightarrow> (error + unit) \<times> world" where
  "recordLoginAttempt rt = recordAttempt rt Login"

definition recordRegisterAttempt :: "runtime \<Rightarrow> bool \<Rightarrow> world \<Rightarrow> (error + unit) \<times> world" where
  "recordRegisterAttempt rt = recordAttempt rt Register"

section \<open>Credential storage (\<^verbatim>\<open>src/utils/storage.js\<close>)\<close>

abbreviation ACCESS_TOKEN :: string where "ACCESS_TOKEN \<equiv> ''auth_access_token''"
abbreviation REFRESH_TOKEN :: string where "REFRESH_TOKEN \<equiv> ''auth_refresh_token''"
abbreviation USER_DATA :: string where "USER_DATA \<equiv> ''auth_user_data''"
abbreviation LAST_LOGIN :: string where "LAST_LOGIN \<equiv> ''auth_last_login''"

text \<open>The \<^verbatim>\<open>catch\<close> of \<^verbatim>\<open>setSecureItem\<close> logs and throws the error again.\<close>

definition setSecureItem :: "runtime \<Rightarrow> string \<Rightarrow> string \<Rightarrow> world \<Rightarrow> (error + unit) \<times> world" where
  "setSecureItem rt key v w =
     (case (if isSecureStoreAvailable rt then SecureStore_setItemAsync rt key v w
            else AsyncStorage_setItem rt key v w) of
        (Inl e, w1) \<Rightarrow> (Inl e, w1)
      | (Inr u, w1) \<Rightarrow> (Inr u, w1))"

text \<open>The \<^verbatim>\<open>catch\<close> of \<^verbatim>\<open>getSecureItem\<close> logs and returns \<^verbatim>\<open>null\<close>.\<close>

definition getSecureItem :: "runtime \<Rightarrow> string \<Rightarrow> world \<Rightarrow> (error + string option) \<times> world" where
  "getSecureItem rt key w =
     (case (if isSecureStoreAvailable rt then SecureStore_getItemAsync rt key w
            else AsyncStorage_getItem rt key w) of
        (Inl e, w1) \<Rightarrow> (Inr None, w1)
      | (Inr v, w1) \<Rightarrow> (Inr v, w1))"

text \<open>The \<^verbatim>\<open>catch\<close> of \<^verbatim>\<open>removeSecureItem\<close> logs and throws the error again.\<close>

definition removeSecureItem :: "runtime \<Rightarrow> string \<Rightarrow> world \<Rightarrow> (error + unit) \<times> world" where
  "removeSecureItem rt key w =
     (case (if isSecureStoreAvailable rt then SecureStore_deleteItemAsync rt key w
            else AsyncStorage_removeItem rt key w) of
        (Inl e, w1) \<Rightarrow> (Inl e, w1)
      | (Inr u, w1) \<Rightarrow> (Inr u, w1))"

definition storeTokens :: "runtime \<Rightarrow> string \<Rightarrow> string \<Rightarrow> world \<Rightarrow> (error + unit) \<times> world" where
  "storeTokens rt accessTok refreshTok w =
     (case Promise_all
             [setSecureItem rt ACCESS_TOKEN accessTok,
              setSecureItem rt REFRESH_TOKEN refreshTok,
              setSecureItem rt LAST_LOGIN (toISOString rt (clock w))] w of
        (Inl e, w1) \<Rightarrow> (Inl e, w1)
      | (Inr us, w1) \<Rightarrow> (Inr (), w1))"

record tokens =
  accessToken :: "string option"
  refreshToken :: "string option"

text \<open>
  \<^verbatim>\<open>getTokens\<close>: the array pattern binds the first two results (\<^verbatim>\<open>Promise.all\<close> of
  two promises gives exactly two); the \<^verbatim>\<open>catch\<close> returns both fields \<^verbatim>\<open>null\<close>.
\<close>

definition getTokens :: "runtime \<Rightarrow> world \<Rightarrow> (error + tokens) \<times> world" where
  "getTokens rt w =
     (case Promise_all [getSecureItem rt ACCESS_TOKEN, getSecureItem rt REFRESH_TOKEN] w of
        (Inl e, w1) \<Rightarrow> (Inr \<lparr>accessToken = None, refreshToken = None\<rparr>, w1)
      | (Inr vs, w1) \<Rightarrow>
          (case vs of
             a # r # rest \<Rightarrow> (Inr \<lparr>accessToken = a, refreshToken = r\<rparr>, w1)
           | _ \<Rightarrow> (Inr \<lparr>accessToken = None, refreshToken = None\<rparr>, w1)))"

text \<open>
  \<^verbatim>\<open>getUserData\<close>: \<^verbatim>\<open>null\<close> (\<open>JNull\<close>) when nothing or the empty string is stored,
  and from the \<^verbatim>\<open>catch\<close> when the stored string does not parse.
\<close>

definition getUserData :: "runtime \<Rightarrow> world \<Rightarrow> (error + jsval) \<times> world" where
  "getUserData rt w =
     (case getSecureItem rt USER_DATA w of
        (Inl e, w1) \<Rightarrow> (Inr JNull, w1)
      | (Inr userData, w1) \<Rightarrow>
          (case userData of
             None \<Rightarrow> (Inr JNull, w1)
           | Some s \<Rightarrow>
               if s = [] then (Inr JNull, w1)
               else (case JSON_parse rt s of
                       None \<Rightarrow> (Inr JNull, w1)
                     | Some v \<Rightarrow> (Inr v, w1))))"

definition clearAuthData :: "runtime \<Rightarrow> world \<Rightarrow> (error + unit) \<times> world" where
  "clearAuthData rt w =
     (case Promise_all
             [removeSecureItem rt ACCESS_TOKEN,
              removeSecureItem rt REFRESH_TOKEN,
              removeSecureItem rt USER_DATA,
              removeSecureItem rt LAST_LOGIN] w of
        (Inl e, w1) \<Rightarrow> (Inl e, w1)
      | (Inr us, w1) \<Rightarrow> (Inr (), w1))"

section \<open>Scenarios and a sample platform\<close>


text \<open>The object that \<^verbatim>\<open>storeAttemptData\<close> serialises for a numeric count.\<close>

definition attemptJson :: "runtime \<Rightarrow> int \<Rightarrow> int \<Rightarrow> jsval" where
  "attemptJson rt c t = JObj [(''count'', JNum c), (''lastAttempt'', JStr (toISOString rt t))]"



text \<open>The store that \<^verbatim>\<open>storage.js\<close> talks to on this platform.\<close>

definition selectedStore :: "runtime \<Rightarrow> backend" where
  "selectedStore rt = (if isSecureStoreAvailable rt then SecureStore else AsyncStorage)"

text \<open>A platform on which neither store ever rejects a call.\<close>

definition never_rejects :: "runtime \<Rightarrow> bool" where
  "never_rejects rt \<longleftrightarrow> (\<forall>b c w. \<not> rejects rt b c w)"

text \<open>
  A platform to run the functions on. Its timestamps are the ISO-8601 text of
  \<^verbatim>\<open>toISOString\<close>, \<^verbatim>\<open>YYYY-MM-DDTHH:mm:ss.sssZ\<close>, for the years 1970 to 9999, and its
  \<^verbatim>\<open>Date.parse\<close> reads that format and nothing else. Its JSON codec covers attempt
  records only: \<^verbatim>\<open>{"count":N}\<close> and \<^verbatim>\<open>{"count":N,"lastAttempt":"S"}\<close>.
\<close>

definition is_digit :: "char \<Rightarrow> bool" where
  "is_digit c \<longleftrightarrow> 48 \<le> (of_char c :: nat) \<and> (of_char c :: nat) \<le> 57"

definition read_nat :: "string \<Rightarrow> nat" where
  "read_nat s = foldl (\<lambda>a c. 10 * a + (of_char c - 48)) 0 s"

definition read_int :: "string \<Rightarrow> int" where
  "read_int s = int (read_nat s)"

definition sample_number :: "string \<Rightarrow> int option" where
  "sample_number s = (if list_all is_digit s then Some (read_int s) else None)"

text \<open>The day number since 1 January 1970 of a date of the Gregorian calendar, and back.\<close>

definition days_from_civil :: "int \<Rightarrow> int \<Rightarrow> int \<Rightarrow> int" where
  "days_from_civil y0 m d =
     (let y = (if m \<le> 2 then y0 - 1 else y0);
          era = y div 400;
          yoe = y - era * 400;
          doy = (153 * (if m > 2 then m - 3 else m + 9) + 2) div 5 + d - 1;
          doe = yoe * 365 + yoe div 4 - yoe div 100 + doy
      in era * 146097 + doe - 719468)"

definition civil_from_days :: "int \<Rightarrow> int \<times> int \<times> int" where
  "civil_from_days z0 =
     (let z = z0 + 719468;
          era = z div 146097;
          doe = z - era * 146097;
          yoe = (doe - doe div 1460 + doe div 36524 - doe div 146096) div 365;
          y = yoe + era * 400;
          doy = doe - (365 * yoe + yoe div 4 - yoe div 100);
          mp = (5 * doy + 2) div 153;
          d = doy - (153 * mp + 2) div 5 + 1;
          m = (if mp < 10 then mp + 3 else mp - 9)
      in (if m \<le> 2 then y + 1 else y, m, d))"

definition pad2 :: "int \<Rightarrow> string" where
  "pad2 n = [digit_char (nat (n div 10 mod 10)), digit_char (nat (n mod 10))]"

definition pad3 :: "int \<Rightarrow> string" where
  "pad3 n = [digit_char (nat (n div 100 mod 10)), digit_char (nat (n div 10 mod 10)),
             digit_char (nat (n mod 10))]"

definition pad4 :: "int \<Rightarrow> string" where
  "pad4 n = [digit_char (nat (n div 1000 mod 10)), digit_char (nat (n div 100 mod 10)),
             digit_char (nat (n div 10 mod 10)), digit_char (nat (n mod 10))]"

definition sample_toISOString :: "int \<Rightarrow> string" where
  "sample_toISOString t =
     (if 0 \<le> t \<and> t < 253402300800000 then
        (let r = t mod 86400000 in
         case civil_from_days (t div 86400000) of
           (y, m, d) \<Rightarrow>
             pad4 y @ ''-'' @ pad2 m @ ''-'' @ pad2 d @ ''T''
               @ pad2 (r div 3600000) @ '':'' @ pad2 (r div 60000 mod 60) @ '':''
               @ pad2 (r div 1000 mod 60) @ ''.'' @ pad3 (r mod 1000) @ ''Z'')
      else [])"

definition sample_date :: "string \<Rightarrow> int option" where
  "sample_date s =
     (if length s = 24 \<and> s ! 4 = CHR ''-'' \<and> s ! 7 = CHR ''-'' \<and> s ! 10 = CHR ''T''
         \<and> s ! 13 = CHR '':'' \<and> s ! 16 = CHR '':'' \<and> s ! 19 = CHR ''.'' \<and> s ! 23 = CHR ''Z''
         \<and> list_all is_digit (take 4 s) \<and> list_all is_digit (take 2 (drop 5 s))
         \<and> list_all is_digit (take 2 (drop 8 s)) \<and> list_all is_digit (take 2 (drop 11 s))
         \<and> list_all is_digit (take 2 (drop 14 s)) \<and> list_all is_digit (take 2 (drop 17 s))
         \<and> list_all is_digit (take 3 (drop 20 s))
      then
        (let y = read_int (take 4 s); m = read_int (take 2 (drop 5 s));
             d = read_int (take 2 (drop 8 s)); h = read_int (take 2 (drop 11 s));
             mi = read_int (take 2 (drop 14 s)); se = read_int (take 2 (drop 17 s));
             ms = read_int (take 3 (drop 20 s))
         in if civil_from_days (days_from_civil y m d) = (y, m, d) \<and> h < 24 \<and> mi < 60 \<and> se < 60
            then Some (days_from_civil y m d * 86400000 + h * 3600000 + mi * 60000
                         + se * 1000 + ms)
            else None)
      else None)"

definition sample_stringify :: "jsval \<Rightarrow> string" where
  \<open>sample_stringify v =
     (case v of
        JObj [(k1, JNum n), (k2, JStr s)] \<Rightarrow>
          ''{"'' @ k1 @ ''":'' @ show_int n @ '',"'' @ k2 @ ''":"'' @ s @ ''"}''
      | JObj [(k1, JNum n)] \<Rightarrow> ''{"'' @ k1 @ ''":'' @ show_int n @ ''}''
      | _ \<Rightarrow> ''null'')\<close>

definition sample_parse :: "string \<Rightarrow> jsval option" where
  \<open>sample_parse s =
     (if take 9 s = ''{"count":'' then
        (let r = drop 9 s; ds = takeWhile is_digit r; r1 = dropWhile is_digit r in
         if ds = [] then None
         else if r1 = ''}'' then Some (JObj [(''count'', JNum (read_int ds))])
         else if take 16 r1 = '',"lastAttempt":"'' then
           (let r2 = drop 16 r1;
                body = takeWhile (\<lambda>c. c \<noteq> CHR 0x22) r2;
                r3 = dropWhile (\<lambda>c. c \<noteq> CHR 0x22) r2
            in if r3 = ''"}''
               then Some (JObj [(''count'', JNum (read_int ds)), (''lastAttempt'', JStr body)])
               else None)
         else None)
      else None)\<close>

definition sample_runtime :: runtime where
  "sample_runtime =
     \<lparr>JSON_parse = sample_parse,
      JSON_stringify = sample_stringify,
      Date_parse = sample_date,
      toISOString = sample_toISOString,
      ObjectToString = (\<lambda>v. ''[object Object]''),
      StringToNumber = sample_number,
      isSecureStoreAvailable = True,
      rejects = (\<lambda>b c w. False)\<rparr>"

text \<open>The same platform with stores that reject every call.\<close>

definition failing_runtime :: runtime where
  "failing_runtime = sample_runtime\<lparr>rejects := (\<lambda>b c w. True)\<rparr>"

text \<open>
  Devices for the examples, all at noon of 1 January 2026 (1767268800000 ms): a login
  record at the limit stamped an hour earlier, a login record over the limit that
  carries no timestamp, a login record at the limit stamped ten seconds earlier, a
  login record whose count is \<open>2 ^ 53\<close>, a signed-in device and an empty one.
\<close>

definition stale_login_world :: world where
  \<open>stale_login_world =
     \<lparr>asyncStorage =
        [LOGIN_ATTEMPTS \<mapsto> ''{"count":5,"lastAttempt":"2026-01-01T11:00:00.000Z"}''],
      secureStore = Map.empty, clock = 1767268800000\<rparr>\<close>

definition untimed_login_world :: world where
  \<open>untimed_login_world =
     \<lparr>asyncStorage = [LOGIN_ATTEMPTS \<mapsto> ''{"count":7}''],
      secureStore = Map.empty, clock = 1767268800000\<rparr>\<close>


definition saturated_login_world :: world where
  \<open>saturated_login_world =
     \<lparr>asyncStorage = [LOGIN_ATTEMPTS \<mapsto> ''{"count":9007199254740992}''],
      secureStore = Map.empty, clock = 1767268800000\<rparr>\<close>

definition signed_in_world :: world where
  \<open>signed_in_world =
     \<lparr>asyncStorage = Map.empty,
      secureStore = [ACCESS_TOKEN \<mapsto> ''token-a'', REFRESH_TOKEN \<mapsto> ''token-r'',
                     USER_DATA \<mapsto> ''{"uid":"u1","email":"a@example.org"}'',
                     LAST_LOGIN \<mapsto> ''2026-01-01T11:00:00.000Z''],
      clock = 1767268800000\<rparr>\<close>

definition empty_world :: world where
  "empty_world = \<lparr>asyncStorage = Map.empty, secureStore = Map.empty, clock = 1767268800000\<rparr>"

section \<open>Decimal numerals and the sample platform\<close>

lemma digit_cases: "d < 10 \<Longrightarrow> d \<in> {0, 1, 2, 3, 4, 5, 6, 7, 8, 9::nat}"
  by auto

lemma digit_char_is_digit: "d < 10 \<Longrightarrow> is_digit (digit_char d)"
  using digit_cases [of d] by (auto simp: is_digit_def digit_char_def)

lemma digit_char_val: "d < 10 \<Longrightarrow> (of_char (digit_char d) :: nat) - 48 = d"
  using digit_cases [of d] by (auto simp: digit_char_def)











lemma digit_mod: "is_digit (digit_char (nat (x mod 10)))"
  by (rule digit_char_is_digit) simp

lemma digit_not_quote: "digit_char (nat (x mod 10)) \<noteq> CHR 0x22"
  using digit_mod [of x] by (auto simp: is_digit_def)

lemma digit_mod_val: "int (of_char (digit_char (nat (x mod 10))) - 48) = x mod 10"
proof -
  have "nat (x mod 10) < 10" by simp
  from digit_char_val [OF this] show ?thesis by simp
qed

lemma digit_top_val: "0 \<le> x \<Longrightarrow> x < 10 \<Longrightarrow> int (of_char (digit_char (nat x)) - 48) = x"
proof -
  assume "0 \<le> x" "x < 10"
  then have "nat x < 10" by simp
  from digit_char_val [OF this] \<open>0 \<le> x\<close> show ?thesis by simp
qed

























lemma sample_never_rejects: "never_rejects sample_runtime"
  by (simp add: never_rejects_def sample_runtime_def)

lemma sample_accepts: "\<not> rejects sample_runtime b c w"
  by (simp add: sample_runtime_def)

section \<open>Reading and writing attempt records\<close>

lemma getAttemptData_world: "snd (getAttemptData rt key w) = w"
  by (auto simp: getAttemptData_def getItem_def split: option.splits)

lemma getAttemptData_fst:
  "getAttemptData rt key w = (fst (getAttemptData rt key w), w)"
  using getAttemptData_world [of rt key w] by (cases "getAttemptData rt key w") simp

lemma getAttemptData_absent:
  "asyncStorage w key = None \<Longrightarrow> getAttemptData rt key w = (noAttempts, w)"
  by (simp add: getAttemptData_def getItem_def)


lemma MAX_VALUE_large: "9007199254740991 \<le> MAX_VALUE"
proof -
  have "(1::rat) \<le> 2 ^ 971" by (rule one_le_power) simp
  then have "(2 ^ 53 - 1) * (1::rat) \<le> (2 ^ 53 - 1) * 2 ^ 971"
    by (intro mult_left_mono) simp_all
  then show ?thesis by (simp add: MAX_VALUE_def)
qed

lemma times_pow2_exact:
  assumes "0 \<le> e" "e < 1024" "\<bar>a * 2 ^ nat e\<bar> \<le> MAX_VALUE"
  shows "times_pow2 (Num a) e = Num (a * 2 ^ nat e)"
  using assms by (auto simp: times_pow2_def)

lemma times_pow2_infinite:
  assumes "1024 \<le> e"
  shows "times_pow2 (Num a) e = (if 0 < a then PosInfinity else if a < 0 then NegInfinity else NaN)"
  using assms by (simp add: times_pow2_def)

lemma calculateBackoffDelay_infinite:
  assumes "1025 \<le> n"
  shows "calculateBackoffDelay n (Num b) (Num m)
           = (if 0 < b then Num m else if b < 0 then NegInfinity else NaN)"
proof -
  from assms have "times_pow2 (Num b) (n - 1)
      = (if 0 < b then PosInfinity else if b < 0 then NegInfinity else NaN)"
    by (intro times_pow2_infinite) simp
  then show ?thesis by (simp add: calculateBackoffDelay_def)
qed

lemma calculateBackoffDelay_default:
  assumes "1 \<le> n"
  shows "calculateBackoffDelay n (Num 1000) (Num 10000)
           = Num (rat_of_int (min (1000 * 2 ^ nat (n - 1)) 10000))"
proof -
  define e where "e = n - 1"
  define y :: rat where "y = 1000 * 2 ^ nat e"
  have e: "0 \<le> e" using assms by (simp add: e_def)
  have y: "1000 \<le> y"
  proof -
    have "(1::rat) \<le> 2 ^ nat e" by (rule one_le_power) simp
    then show ?thesis by (simp add: y_def)
  qed
  have cap: "rat_of_int (min (1000 * 2 ^ nat e) 10000) = min y 10000"
    by (simp add: y_def of_int_min)
  have big: "min y 10000 = 10000" if "MAX_VALUE < y"
    using that MAX_VALUE_large by simp
  have "Math_min (times_pow2 (Num 1000) e) (Num 10000) = Num (min y 10000)"
  proof (cases "1024 \<le> e")
    case True
    have "(2::rat) ^ 4 \<le> 2 ^ nat e" by (rule power_increasing) (use True in simp_all)
    then have "10000 \<le> y" by (simp add: y_def)
    with True show ?thesis by (simp add: times_pow2_infinite)
  next
    case False
    show ?thesis
    proof (cases "MAX_VALUE < y")
      case True
      with False e big show ?thesis by (auto simp: times_pow2_def y_def)
    next
      case over: False
      with y MAX_VALUE_large have "\<bar>1000 * 2 ^ nat e\<bar> \<le> MAX_VALUE" by (simp add: y_def)
      from times_pow2_exact [OF e _ this] False show ?thesis by (simp add: y_def)
    qed
  qed
  then show ?thesis by (simp only: calculateBackoffDelay_def Let_def e_def [symmetric] cap)
qed

lemma delay_default:
  "1 \<le> n \<Longrightarrow> delay (calculateBackoffDelay n (Num 1000) (Num 10000)) w
     = (Inr (), w\<lparr>clock := clock w + min (1000 * 2 ^ nat (n - 1)) 10000\<rparr>)"
  by (simp add: calculateBackoffDelay_default del: of_int_min)

lemma double_add1_exact:
  "- 9007199254740992 \<le> n \<Longrightarrow> n < 9007199254740992 \<Longrightarrow> double_add1 n = n + 1"
  by (simp add: double_add1_def)

lemma recordAttempt_failed:
  assumes cnt: "count (fst (getAttemptData rt (attempts_key k) w)) = JNum n"
    and ok: "\<not> rejects rt AsyncStorage
               (SetItem (attempts_key k)
                  (JSON_stringify rt (attemptJson rt (double_add1 n) (clock w)))) w"
  shows "recordAttempt rt k False w =
           (Inr (), w\<lparr>asyncStorage := (asyncStorage w)(attempts_key k \<mapsto>
                           JSON_stringify rt (attemptJson rt (double_add1 n) (clock w))),
                       clock := clock w + (if 1 < double_add1 n
                                           then min (1000 * 2 ^ nat (double_add1 n - 1)) 10000
                                           else 0)\<rparr>)"
proof -
  define n' where "n' = double_add1 n"
  obtain ad where g: "getAttemptData rt (attempts_key k) w = (ad, w)"
    using getAttemptData_world [of rt "attempts_key k" w] by (cases "getAttemptData rt (attempts_key k) w") simp
  with cnt have c: "count ad = JNum n" by simp
  have a1: "js_add1 rt (JNum n) = JNum n'" by (simp add: js_add1_def ToNumber_def n'_def)
  have tn: "ToNumber rt (JNum n') = Some n'" by (simp add: ToNumber_def)
  have st: "storeAttemptData rt (attempts_key k) (JNum n') (clock w) w
      = w\<lparr>asyncStorage := (asyncStorage w)(attempts_key k \<mapsto> JSON_stringify rt (attemptJson rt n' (clock w)))\<rparr>"
    using ok by (simp add: storeAttemptData_def setItem_def attemptJson_def n'_def)
  have "recordAttempt rt k False w =
           (Inr (), w\<lparr>asyncStorage := (asyncStorage w)(attempts_key k \<mapsto>
                           JSON_stringify rt (attemptJson rt n' (clock w))),
                       clock := clock w + (if 1 < n' then min (1000 * 2 ^ nat (n' - 1)) 10000 else 0)\<rparr>)"
  proof (cases "1 < n'")
    case True
    then have "1 \<le> n'" by simp
    from delay_default [OF this] True show ?thesis
      by (simp add: recordAttempt_def g c a1 tn st Let_def)
  next
    case False
    then show ?thesis
      by (simp add: recordAttempt_def g c a1 tn st Let_def)
  qed
  then show ?thesis by (simp only: n'_def)
qed

lemma recordAttempt_failed_delay:
  assumes cnt: "count (fst (getAttemptData rt (attempts_key k) w)) = JNum n"
    and ok: "\<not> rejects rt AsyncStorage
               (SetItem (attempts_key k)
                  (JSON_stringify rt (attemptJson rt (double_add1 n) (clock w)))) w"
  shows "\<exists>d. Num (rat_of_int d)
                = (if 1 < double_add1 n
                   then calculateBackoffDelay (double_add1 n) BASE_DELAY_MS MAX_DELAY_MS
                   else Num 0)
           \<and> recordAttempt rt k False w =
               (Inr (), w\<lparr>asyncStorage := (asyncStorage w)(attempts_key k \<mapsto>
                               JSON_stringify rt (attemptJson rt (double_add1 n) (clock w))),
                           clock := clock w + d\<rparr>)"
proof -
  let ?d = "if 1 < double_add1 n then min (1000 * 2 ^ nat (double_add1 n - 1)) 10000 else (0::int)"
  have "Num (rat_of_int ?d)
      = (if 1 < double_add1 n
         then calculateBackoffDelay (double_add1 n) BASE_DELAY_MS MAX_DELAY_MS else Num 0)"
    by (simp add: calculateBackoffDelay_default del: of_int_min)
  with recordAttempt_failed [OF cnt ok] show ?thesis by blast
qed

lemma recordAttempt_success:
  assumes ok: "\<not> rejects rt AsyncStorage (RemoveItem (attempts_key k)) w"
  shows "recordAttempt rt k True w =
           (Inr (), w\<lparr>asyncStorage := (asyncStorage w)(attempts_key k := None)\<rparr>)"
proof -
  obtain ad where g: "getAttemptData rt (attempts_key k) w = (ad, w)"
    using getAttemptData_world [of rt "attempts_key k" w] by (cases "getAttemptData rt (attempts_key k) w") simp
  show ?thesis using ok by (simp add: recordAttempt_def g removeItem_def)
qed



section \<open>The rate-limit check, case by case\<close>

lemma checkRateLimit_alt:
  "checkRateLimit rt k w =
     (if js_ge rt (count (fst (getAttemptData rt (attempts_key k) w))) (max_attempts k) then
        (case lastAttempt (fst (getAttemptData rt (attempts_key k) w)) of
           None \<Rightarrow> (Inr notLimited, w)
         | Some la \<Rightarrow>
             (case date_plus la (cooldown_minutes k * 60 * 1000) of
                Date cooldownEndTime \<Rightarrow>
                  if clock w < cooldownEndTime then
                    (Inr \<lparr>isLimited = True,
                          waitTime = \<lceil>rat_of_int (cooldownEndTime - clock w) / 1000 / 60\<rceil>,
                          message = ''Too many '' @ attempts_noun k
                            @ '' attempts. Please wait ''
                            @ show_int \<lceil>rat_of_int (cooldownEndTime - clock w) / 1000 / 60\<rceil>
                            @ '' minutes before trying again.''\<rparr>, w)
                  else
                    (if rejects rt AsyncStorage (RemoveItem (attempts_key k)) w
                     then (Inl StorageError, w)
                     else (Inr notLimited, w\<lparr>asyncStorage := (asyncStorage w)(attempts_key k := None)\<rparr>))
              | InvalidDate \<Rightarrow>
                    (if rejects rt AsyncStorage (RemoveItem (attempts_key k)) w
                     then (Inl StorageError, w)
                     else (Inr notLimited, w\<lparr>asyncStorage := (asyncStorage w)(attempts_key k := None)\<rparr>))))
      else (Inr notLimited, w))"
  unfolding checkRateLimit_def
  by (subst getAttemptData_fst) (simp add: removeItem_def Let_def split: option.splits date.splits)



section \<open>The secure store, case by case\<close>

lemma setSecureItem_alt:
  "setSecureItem rt key v w =
     (if rejects rt (selectedStore rt) (SetItem key v) w then (Inl StorageError, w)
      else (Inr (), put_items (selectedStore rt) ((items (selectedStore rt) w)(key \<mapsto> v)) w))"
  by (simp add: setSecureItem_def selectedStore_def setItem_def)

lemma getSecureItem_alt:
  "getSecureItem rt key w =
     (Inr (if rejects rt (selectedStore rt) (GetItem key) w then None
           else items (selectedStore rt) w key), w)"
  by (simp add: getSecureItem_def selectedStore_def getItem_def)

lemma removeSecureItem_alt:
  "removeSecureItem rt key w =
     (if rejects rt (selectedStore rt) (RemoveItem key) w then (Inl StorageError, w)
      else (Inr (), put_items (selectedStore rt) ((items (selectedStore rt) w)(key := None)) w))"
  by (simp add: removeSecureItem_def selectedStore_def removeItem_def)

lemma items_put_items [simp]: "items b (put_items b m w) = m"
  by (cases b) simp_all

lemma put_items_put_items [simp]: "put_items b m (put_items b m' w) = put_items b m w"
  by (cases b) simp_all

lemma getTokens_alt:
  "getTokens rt w =
     (Inr \<lparr>accessToken = (if rejects rt (selectedStore rt) (GetItem ACCESS_TOKEN) w then None
                            else items (selectedStore rt) w ACCESS_TOKEN),
           refreshToken = (if rejects rt (selectedStore rt) (GetItem REFRESH_TOKEN) w then None
                            else items (selectedStore rt) w REFRESH_TOKEN)\<rparr>, w)"
  by (simp add: getTokens_def getSecureItem_alt)

lemma getUserData_absent:
  "items (selectedStore rt) w USER_DATA = None \<Longrightarrow> getUserData rt w = (Inr JNull, w)"
  by (simp add: getUserData_def getSecureItem_alt)

section \<open>The example devices\<close>

lemma stale_login_data:
  "getAttemptData sample_runtime LOGIN_ATTEMPTS stale_login_world
     = (\<lparr>count = JNum 5, lastAttempt = Some (Date 1767265200000)\<rparr>, stale_login_world)"
proof -
  have p: \<open>sample_parse ''{"count":5,"lastAttempt":"2026-01-01T11:00:00.000Z"}''
      = Some (JObj [(''count'', JNum 5), (''lastAttempt'', JStr ''2026-01-01T11:00:00.000Z'')])\<close>
    by code_simp
  have d: "sample_date ''2026-01-01T11:00:00.000Z'' = Some 1767265200000"
    by code_simp
  show ?thesis
    by (simp add: getAttemptData_def getItem_def stale_login_world_def sample_runtime_def
        p d new_Date_def)
qed

lemma untimed_login_data:
  "getAttemptData sample_runtime LOGIN_ATTEMPTS untimed_login_world
     = (\<lparr>count = JNum 7, lastAttempt = None\<rparr>, untimed_login_world)"
proof -
  have p: \<open>sample_parse ''{"count":7}'' = Some (JObj [(''count'', JNum 7)])\<close>
    by code_simp
  show ?thesis
    by (simp add: getAttemptData_def getItem_def untimed_login_world_def sample_runtime_def p)
qed


lemma saturated_login_data:
  "getAttemptData sample_runtime LOGIN_ATTEMPTS saturated_login_world
     = (\<lparr>count = JNum 9007199254740992, lastAttempt = None\<rparr>, saturated_login_world)"
proof -
  have p: \<open>sample_parse ''{"count":9007199254740992}''
      = Some (JObj [(''count'', JNum 9007199254740992)])\<close>
    by (simp add: sample_parse_def is_digit_def read_int_def read_nat_def)
  show ?thesis
    by (simp add: getAttemptData_def getItem_def saturated_login_world_def sample_runtime_def p)
qed

lemma check_stale_login:
  "checkRateLimit sample_runtime Login stale_login_world
     = (Inr notLimited, stale_login_world\<lparr>asyncStorage := Map.empty\<rparr>)"
  by (simp add: checkRateLimit_alt stale_login_data js_ge_def ToNumber_def TimeClip_def sample_accepts)
     (simp add: stale_login_world_def)

lemma check_untimed_login:
  "checkRateLimit sample_runtime Login untimed_login_world = (Inr notLimited, untimed_login_world)"
  by (simp add: checkRateLimit_alt untimed_login_data js_ge_def ToNumber_def)


lemma clear_signed_in:
  "clearAuthData sample_runtime signed_in_world = (Inr (), signed_in_world\<lparr>secureStore := Map.empty\<rparr>)"
  by (simp add: clearAuthData_def removeSecureItem_alt selectedStore_def sample_runtime_def
      signed_in_world_def)

section \<open>The backoff calculator\<close>

text \<open>
  C1, as the code has it. For every attempt count from 1 to 1024 and every finite base
  and maximum such that \<open>base * 2 ^ (attemptCount - 1)\<close> is not below the most
  negative double, the backoff calculator returns the minimum of that product and the
  maximum.
  From attempt count 1025 the power is \<^verbatim>\<open>Infinity\<close>, and the result is the maximum
  for a positive base, NaN for base 0 and \<^verbatim>\<open>-Infinity\<close> for a negative base. With
  the default base 1000 and maximum 10000 the formula holds for every attempt count from
  1; the delays of attempts 1, 4 and 5 are 1000, 8000 and 10000 (capped).
\<close>

theorem calculateBackoffDelay_formula:
  "(\<forall>n b m. 1 \<le> n \<and> n \<le> 1024 \<and> - MAX_VALUE \<le> b * 2 ^ nat (n - 1) \<and> m \<le> MAX_VALUE \<longrightarrow>
       calculateBackoffDelay n (Num b) (Num m) = Num (min (b * 2 ^ nat (n - 1)) m))
   \<and> (\<forall>n b m. 1025 \<le> n \<longrightarrow>
       calculateBackoffDelay n (Num b) (Num m)
         = (if 0 < b then Num m else if b < 0 then NegInfinity else NaN))
   \<and> (\<forall>n. 1 \<le> n \<longrightarrow>
       calculateBackoffDelay n (Num 1000) (Num 10000) = Num (min (1000 * 2 ^ nat (n - 1)) 10000))
   \<and> calculateBackoffDelay 1 (Num 1000) (Num 10000) = Num 1000
   \<and> calculateBackoffDelay 4 (Num 1000) (Num 10000) = Num 8000
   \<and> calculateBackoffDelay 5 (Num 1000) (Num 10000) = Num 10000"
proof (intro conjI allI impI)
  fix n :: int and b m :: rat
  assume a: "1 \<le> n \<and> n \<le> 1024 \<and> - MAX_VALUE \<le> b * 2 ^ nat (n - 1) \<and> m \<le> MAX_VALUE"
  show "calculateBackoffDelay n (Num b) (Num m) = Num (min (b * 2 ^ nat (n - 1)) m)"
  proof (cases "n = 1")
    case True
    then show ?thesis by (simp add: calculateBackoffDelay_def times_pow2_def)
  next
    case more: False
    show ?thesis
    proof (cases "MAX_VALUE < b * 2 ^ nat (n - 1)")
      case True
      with a more have "times_pow2 (Num b) (n - 1) = PosInfinity"
        by (auto simp: times_pow2_def)
      moreover from True a have "min (b * 2 ^ nat (n - 1)) m = m" by simp
      ultimately show ?thesis by (simp add: calculateBackoffDelay_def)
    next
      case False
      with a have "\<bar>b * 2 ^ nat (n - 1)\<bar> \<le> MAX_VALUE" by linarith
      with a have "times_pow2 (Num b) (n - 1) = Num (b * 2 ^ nat (n - 1))"
        by (intro times_pow2_exact) simp_all
      then show ?thesis by (simp add: calculateBackoffDelay_def)
    qed
  qed
next
  fix n :: int and b m :: rat
  assume "1025 \<le> n"
  then show "calculateBackoffDelay n (Num b) (Num m)
         = (if 0 < b then Num m else if b < 0 then NegInfinity else NaN)"
    by (rule calculateBackoffDelay_infinite)
next
  fix n :: int
  assume "1 \<le> n"
  then show "calculateBackoffDelay n (Num 1000) (Num 10000)
      = Num (min (1000 * 2 ^ nat (n - 1)) 10000)"
    by (simp add: calculateBackoffDelay_default of_int_min)
next
  show "calculateBackoffDelay 1 (Num 1000) (Num 10000) = Num 1000"
    by (simp add: calculateBackoffDelay_default)
  show "calculateBackoffDelay 4 (Num 1000) (Num 10000) = Num 8000"
    by (simp add: calculateBackoffDelay_default)
  show "calculateBackoffDelay 5 (Num 1000) (Num 10000) = Num 10000"
    by (simp add: calculateBackoffDelay_default)
qed

text \<open>
  The formula at attempt 3 with base 300 and maximum 5000, the default delay of attempt
  2000, and attempt 1100 with base 0.
\<close>

theorem calculateBackoffDelay_formula_witness:
  "(1::int) \<le> 3 \<and> (3::int) \<le> 1024 \<and> - MAX_VALUE \<le> 300 * 2 ^ nat (3 - 1)
   \<and> 5000 \<le> MAX_VALUE
   \<and> calculateBackoffDelay 3 (Num 300) (Num 5000) = Num 1200
   \<and> (1025::int) \<le> 1100 \<and> calculateBackoffDelay 1100 (Num 0) (Num 10000) = NaN
   \<and> (1::int) \<le> 2000 \<and> calculateBackoffDelay 2000 (Num 1000) (Num 10000) = Num 10000"
proof -
  have r: "- MAX_VALUE \<le> 300 * 2 ^ nat (3 - 1)" "5000 \<le> MAX_VALUE"
    using MAX_VALUE_large by simp_all
  have "(2::rat) ^ 4 \<le> 2 ^ 1999" by (rule power_increasing) simp_all
  then have c: "min (1000 * 2 ^ 1999) (10000::rat) = 10000" by simp
  from calculateBackoffDelay_formula r c show ?thesis by simp
qed

text \<open>
  C1, as the specification words it (the formula for every attempt count from 1 and every
  base and maximum), fails at attempt 1100 with base 0 and maximum 10000: the formula
  gives 0, the code computes \<^verbatim>\<open>0 * Infinity\<close> and returns NaN. It fails as well at
  attempt 2 with the most negative double as base: the product overflows, and the code
  returns \<^verbatim>\<open>-Infinity\<close>.
\<close>

theorem calculateBackoffDelay_formula_counterexample:
  "calculateBackoffDelay 1100 (Num 0) (Num 10000) = NaN
   \<and> min (0 * 2 ^ nat (1100 - 1)) (10000::rat) = 0
   \<and> calculateBackoffDelay 1100 (Num 0) (Num 10000)
       \<noteq> Num (min (0 * 2 ^ nat (1100 - 1)) 10000)
   \<and> calculateBackoffDelay 2 (Num (- MAX_VALUE)) (Num 10000) = NegInfinity"
proof -
  have "0 < MAX_VALUE" using MAX_VALUE_large by simp
  then show ?thesis by (simp add: calculateBackoffDelay_def times_pow2_def)
qed

text \<open>
  C9, as the code has it. With attempt count 1 the calculator returns the base exactly
  whenever the base does not exceed the maximum.
\<close>

theorem calculateBackoffDelay_first:
  "b \<le> m \<Longrightarrow> calculateBackoffDelay 1 (Num b) (Num m) = Num b"
  by (simp add: calculateBackoffDelay_def times_pow2_def)

text \<open>
  The default base and maximum.
\<close>

theorem calculateBackoffDelay_first_witness:
  "(1000::rat) \<le> 10000 \<and> calculateBackoffDelay 1 (Num 1000) (Num 10000) = Num 1000"
  using calculateBackoffDelay_first [of 1000 10000] by simp

text \<open>
  C9, as the specification words it (the result is the base for every base and maximum),
  fails where the base exceeds the maximum: the cap applies to the first attempt too.
\<close>

theorem calculateBackoffDelay_first_counterexample:
  "calculateBackoffDelay 1 (Num 20000) (Num 10000) = Num 10000
   \<and> calculateBackoffDelay 1 (Num 20000) (Num 10000) \<noteq> Num 20000"
  by (simp add: calculateBackoffDelay_def times_pow2_def)

section \<open>Five failed logins\<close>



section \<open>Failures of the secure store\<close>

text \<open>
  C3, as the code has it. For every key, value and device, \<^verbatim>\<open>getSecureItem\<close> never
  rejects, and resolves to \<^verbatim>\<open>null\<close> when the store rejects the read; when the store
  rejects the call, both \<^verbatim>\<open>removeSecureItem\<close> and \<^verbatim>\<open>setSecureItem\<close> reject with
  the store's error and leave the device as it was.
\<close>

theorem secure_item_failures:
  "(\<exists>x. getSecureItem rt key w = (Inr x, w))
   \<and> (rejects rt (selectedStore rt) (GetItem key) w \<longrightarrow> getSecureItem rt key w = (Inr None, w))
   \<and> (rejects rt (selectedStore rt) (RemoveItem key) w \<longrightarrow>
        removeSecureItem rt key w = (Inl StorageError, w))
   \<and> (rejects rt (selectedStore rt) (SetItem key v) w \<longrightarrow>
        setSecureItem rt key v w = (Inl StorageError, w))"
  by (simp add: getSecureItem_alt removeSecureItem_alt setSecureItem_alt)

text \<open>
  The three operations on a platform whose stores reject every call.
\<close>

theorem secure_item_failures_witness:
  "rejects failing_runtime (selectedStore failing_runtime) (GetItem ACCESS_TOKEN) signed_in_world
   \<and> getSecureItem failing_runtime ACCESS_TOKEN signed_in_world = (Inr None, signed_in_world)
   \<and> rejects failing_runtime (selectedStore failing_runtime) (RemoveItem ACCESS_TOKEN) signed_in_world
   \<and> removeSecureItem failing_runtime ACCESS_TOKEN signed_in_world = (Inl StorageError, signed_in_world)
   \<and> rejects failing_runtime (selectedStore failing_runtime) (SetItem ACCESS_TOKEN ''t'') signed_in_world
   \<and> setSecureItem failing_runtime ACCESS_TOKEN ''t'' signed_in_world = (Inl StorageError, signed_in_world)"
  using secure_item_failures [of failing_runtime ACCESS_TOKEN signed_in_world "''t''"]
  by (simp add: failing_runtime_def)

text \<open>
  C3, as the specification words it (a failed remove resolves as a no-op), fails:
  on the failing platform \<^verbatim>\<open>removeSecureItem\<close> rejects, and the token is still stored.
\<close>

theorem secure_item_failures_counterexample:
  "removeSecureItem failing_runtime ACCESS_TOKEN signed_in_world = (Inl StorageError, signed_in_world)
   \<and> secureStore signed_in_world ACCESS_TOKEN = Some ''token-a''"
  by (simp add: removeSecureItem_alt failing_runtime_def signed_in_world_def)

section \<open>What a check that does not limit changes\<close>

text \<open>
  C4, as the code has it. For either kind and every device, a check that returns
  \<^verbatim>\<open>isLimited = false\<close> leaves the device unchanged, unless the stored count has
  reached the maximum and a \<^verbatim>\<open>lastAttempt\<close> is present (the cooldown is then over):
  in that case it removes the attempt record of its kind and changes nothing else.
\<close>

theorem check_not_limited_frame:
  assumes "checkRateLimit rt k w = (Inr r, w')" and "\<not> isLimited r"
  shows "w' = (if js_ge rt (count (fst (getAttemptData rt (attempts_key k) w))) (max_attempts k)
                  \<and> lastAttempt (fst (getAttemptData rt (attempts_key k) w)) \<noteq> None
               then w\<lparr>asyncStorage := (asyncStorage w)(attempts_key k := None)\<rparr>
               else w)"
  using assms
  by (auto simp: checkRateLimit_alt split: if_splits option.splits date.splits)

text \<open>
  Both cases on the sample platform: the record whose cooldown is over is removed,
  the record without a timestamp stays.
\<close>

theorem check_not_limited_frame_witness:
  "checkRateLimit sample_runtime Login stale_login_world
     = (Inr notLimited, stale_login_world\<lparr>asyncStorage := Map.empty\<rparr>)
   \<and> \<not> isLimited notLimited
   \<and> js_ge sample_runtime (count (fst (getAttemptData sample_runtime LOGIN_ATTEMPTS stale_login_world))) 5
   \<and> lastAttempt (fst (getAttemptData sample_runtime LOGIN_ATTEMPTS stale_login_world)) \<noteq> None
   \<and> stale_login_world\<lparr>asyncStorage := Map.empty\<rparr>
       = stale_login_world\<lparr>asyncStorage := (asyncStorage stale_login_world)(LOGIN_ATTEMPTS := None)\<rparr>
   \<and> checkRateLimit sample_runtime Login untimed_login_world = (Inr notLimited, untimed_login_world)
   \<and> lastAttempt (fst (getAttemptData sample_runtime LOGIN_ATTEMPTS untimed_login_world)) = None"
  using check_not_limited_frame [OF check_stale_login] check_not_limited_frame [OF check_untimed_login]
    check_stale_login check_untimed_login
  by (simp add: notLimited_def stale_login_data untimed_login_data js_ge_def ToNumber_def)

text \<open>
  C4, as the specification words it (no side effect whenever the check does not limit),
  fails: with five failures, the last stamped 11:00, and the clock at 12:00 the login
  check returns \<^verbatim>\<open>isLimited = false\<close> and the record is gone afterwards.
\<close>

theorem check_not_limited_frame_counterexample:
  "checkLoginRateLimit sample_runtime stale_login_world
     = (Inr \<lparr>isLimited = False, waitTime = 0, message = []\<rparr>,
        stale_login_world\<lparr>asyncStorage := Map.empty\<rparr>)
   \<and> asyncStorage stale_login_world LOGIN_ATTEMPTS \<noteq> None"
  by (simp add: checkLoginRateLimit_def checkRateLimit_alt stale_login_data js_ge_def ToNumber_def
      TimeClip_def notLimited_def)
     (simp add: stale_login_world_def sample_runtime_def)

section \<open>The lazy reset\<close>

text \<open>
  C5. For either kind: when the stored count has reached the maximum, the stored
  \<^verbatim>\<open>lastAttempt\<close> is a valid date, the clock has reached \<open>lastAttempt + cooldown\<close>
  and the store accepts the removal, the check returns \<^verbatim>\<open>isLimited = false\<close>, its
  only effect is the removal of the attempt record of that kind, and the record reads
  as absent (count 0, no timestamp) afterwards.
\<close>

theorem cooldown_elapsed_resets:
  assumes "js_ge rt (count (fst (getAttemptData rt (attempts_key k) w))) (max_attempts k)"
    and "lastAttempt (fst (getAttemptData rt (attempts_key k) w)) = Some (Date t)"
    and "t + cooldown_minutes k * 60000 \<le> clock w"
    and "\<not> rejects rt AsyncStorage (RemoveItem (attempts_key k)) w"
  shows "\<exists>w'. checkRateLimit rt k w = (Inr notLimited, w')
           \<and> \<not> isLimited notLimited
           \<and> w' = w\<lparr>asyncStorage := (asyncStorage w)(attempts_key k := None)\<rparr>
           \<and> asyncStorage w' (attempts_key k) = None
           \<and> getAttemptData rt (attempts_key k) w' = (noAttempts, w')"
proof -
  let ?w = "w\<lparr>asyncStorage := (asyncStorage w)(attempts_key k := None)\<rparr>"
  have "checkRateLimit rt k w = (Inr notLimited, ?w)"
    using assms by (simp add: checkRateLimit_alt TimeClip_def split: date.splits)
  moreover have "asyncStorage ?w (attempts_key k) = None" by simp
  moreover from this have "getAttemptData rt (attempts_key k) ?w = (noAttempts, ?w)"
    by (rule getAttemptData_absent)
  ultimately show ?thesis by (simp add: notLimited_def)
qed

text \<open>
  The login record with five failures, the last stamped 11:00, checked at 12:00.
\<close>

theorem cooldown_elapsed_resets_witness:
  "js_ge sample_runtime (count (fst (getAttemptData sample_runtime LOGIN_ATTEMPTS stale_login_world))) 5
   \<and> lastAttempt (fst (getAttemptData sample_runtime LOGIN_ATTEMPTS stale_login_world)) = Some (Date 1767265200000)
   \<and> 1767265200000 + 15 * 60000 \<le> clock stale_login_world
   \<and> \<not> rejects sample_runtime AsyncStorage (RemoveItem LOGIN_ATTEMPTS) stale_login_world
   \<and> asyncStorage stale_login_world LOGIN_ATTEMPTS \<noteq> None
   \<and> (\<exists>w'. checkRateLimit sample_runtime Login stale_login_world = (Inr notLimited, w')
          \<and> asyncStorage w' LOGIN_ATTEMPTS = None
          \<and> getAttemptData sample_runtime LOGIN_ATTEMPTS w' = (noAttempts, w'))"
proof -
  have a: "js_ge sample_runtime
      (count (fst (getAttemptData sample_runtime (attempts_key Login) stale_login_world)))
      (max_attempts Login)"
    by (simp add: stale_login_data js_ge_def ToNumber_def)
  have b: "lastAttempt (fst (getAttemptData sample_runtime (attempts_key Login) stale_login_world))
      = Some (Date 1767265200000)"
    by (simp add: stale_login_data)
  have c: "1767265200000 + cooldown_minutes Login * 60000 \<le> clock stale_login_world"
    by (simp add: stale_login_world_def)
  have d: "\<not> rejects sample_runtime AsyncStorage (RemoveItem (attempts_key Login)) stale_login_world"
    by (rule sample_accepts)
  have e: "asyncStorage stale_login_world LOGIN_ATTEMPTS \<noteq> None"
    by (simp add: stale_login_world_def)
  from cooldown_elapsed_resets [OF a b c d] a b c d e show ?thesis by auto
qed

section \<open>Recording an attempt\<close>

text \<open>
  C6, as the code has it. For either kind and every device whose store accepts the call
  made: recording a success removes the attempt record and leaves the clock where it was
  (and the whole device unchanged when no record was stored); recording a failure after
  a numeric count \<open>n\<close> below \<open>2 ^ 53\<close> in size, where \<^verbatim>\<open>count + 1\<close> is exact,
  stores the record of \<open>n + 1\<close> and the clock reading, and returns after a delay that
  is \<^verbatim>\<open>calculateBackoffDelay(n + 1)\<close> when \<open>n + 1 > 1\<close> and zero otherwise.
\<close>

theorem recordAttempt_effect:
  "(\<not> rejects rt AsyncStorage (RemoveItem (attempts_key k)) w \<longrightarrow>
      recordAttempt rt k True w
        = (Inr (), w\<lparr>asyncStorage := (asyncStorage w)(attempts_key k := None)\<rparr>)
      \<and> (asyncStorage w (attempts_key k) = None \<longrightarrow> recordAttempt rt k True w = (Inr (), w)))
   \<and> (count (fst (getAttemptData rt (attempts_key k) w)) = JNum n
        \<and> - 9007199254740992 \<le> n \<and> n < 9007199254740992
        \<and> \<not> rejects rt AsyncStorage
              (SetItem (attempts_key k) (JSON_stringify rt (attemptJson rt (n + 1) (clock w)))) w \<longrightarrow>
        (\<exists>d. Num (rat_of_int d)
                = (if 1 < n + 1 then calculateBackoffDelay (n + 1) BASE_DELAY_MS MAX_DELAY_MS
                   else Num 0)
           \<and> recordAttempt rt k False w
                = (Inr (), w\<lparr>asyncStorage := (asyncStorage w)(attempts_key k \<mapsto>
                                  JSON_stringify rt (attemptJson rt (n + 1) (clock w))),
                              clock := clock w + d\<rparr>)))"
proof (intro conjI impI)
  assume ok: "\<not> rejects rt AsyncStorage (RemoveItem (attempts_key k)) w"
  then show s: "recordAttempt rt k True w
        = (Inr (), w\<lparr>asyncStorage := (asyncStorage w)(attempts_key k := None)\<rparr>)"
    by (rule recordAttempt_success)
  assume "asyncStorage w (attempts_key k) = None"
  then have "(asyncStorage w)(attempts_key k := None) = asyncStorage w" by auto
  with s show "recordAttempt rt k True w = (Inr (), w)" by simp
next
  assume a: "count (fst (getAttemptData rt (attempts_key k) w)) = JNum n
        \<and> - 9007199254740992 \<le> n \<and> n < 9007199254740992
        \<and> \<not> rejects rt AsyncStorage
              (SetItem (attempts_key k) (JSON_stringify rt (attemptJson rt (n + 1) (clock w)))) w"
  then have e: "double_add1 n = n + 1" by (simp add: double_add1_exact)
  let ?d = "if 1 < n + 1 then min (1000 * 2 ^ nat n) 10000 else (0::int)"
  have "Num (rat_of_int ?d)
      = (if 1 < n + 1 then calculateBackoffDelay (n + 1) BASE_DELAY_MS MAX_DELAY_MS else Num 0)"
    by (simp add: calculateBackoffDelay_default del: of_int_min)
  moreover from a have "recordAttempt rt k False w
                = (Inr (), w\<lparr>asyncStorage := (asyncStorage w)(attempts_key k \<mapsto>
                                  JSON_stringify rt (attemptJson rt (n + 1) (clock w))),
                              clock := clock w + ?d\<rparr>)"
    using recordAttempt_failed [of rt k w n] by (simp add: e)
  ultimately show "\<exists>d. Num (rat_of_int d)
                = (if 1 < n + 1 then calculateBackoffDelay (n + 1) BASE_DELAY_MS MAX_DELAY_MS
                   else Num 0)
           \<and> recordAttempt rt k False w
                = (Inr (), w\<lparr>asyncStorage := (asyncStorage w)(attempts_key k \<mapsto>
                                  JSON_stringify rt (attemptJson rt (n + 1) (clock w))),
                              clock := clock w + d\<rparr>)"
    by blast
qed

text \<open>
  A success and a sixth failure on the device with five failures (delay 10000 ms), and
  a success and a first failure on the empty device (no delay).
\<close>

theorem recordAttempt_effect_witness:
  "\<not> rejects sample_runtime AsyncStorage (RemoveItem LOGIN_ATTEMPTS) stale_login_world
   \<and> recordAttempt sample_runtime Login True stale_login_world
       = (Inr (), stale_login_world\<lparr>asyncStorage := Map.empty\<rparr>)
   \<and> asyncStorage empty_world LOGIN_ATTEMPTS = None
   \<and> recordAttempt sample_runtime Login True empty_world = (Inr (), empty_world)
   \<and> count (fst (getAttemptData sample_runtime LOGIN_ATTEMPTS stale_login_world)) = JNum 5
   \<and> - 9007199254740992 \<le> (5::int) \<and> (5::int) < 9007199254740992
   \<and> calculateBackoffDelay 6 (Num 1000) (Num 10000) = Num 10000
   \<and> recordAttempt sample_runtime Login False stale_login_world
       = (Inr (), stale_login_world
            \<lparr>asyncStorage := (asyncStorage stale_login_world)(LOGIN_ATTEMPTS \<mapsto>
                JSON_stringify sample_runtime (attemptJson sample_runtime 6 1767268800000)),
             clock := 1767268810000\<rparr>)
   \<and> count (fst (getAttemptData sample_runtime LOGIN_ATTEMPTS empty_world)) = JNum 0
   \<and> recordAttempt sample_runtime Login False empty_world
       = (Inr (), empty_world
            \<lparr>asyncStorage := (asyncStorage empty_world)(LOGIN_ATTEMPTS \<mapsto>
                JSON_stringify sample_runtime (attemptJson sample_runtime 1 1767268800000))\<rparr>)"
proof -
  have c5: "count (fst (getAttemptData sample_runtime (attempts_key Login) stale_login_world)) = JNum 5"
    by (simp add: stale_login_data)
  have c0: "count (fst (getAttemptData sample_runtime (attempts_key Login) empty_world)) = JNum 0"
    by (simp add: getAttemptData_absent empty_world_def noAttempts_def)
  have d: "calculateBackoffDelay 6 (Num 1000) (Num 10000) = Num 10000"
    by (simp add: calculateBackoffDelay_default)
  have k1: "clock stale_login_world = 1767268800000" by (simp add: stale_login_world_def)
  have k0: "clock empty_world = 1767268800000" by (simp add: empty_world_def)
  have s: "(asyncStorage stale_login_world)(LOGIN_ATTEMPTS := None) = Map.empty"
    by (simp add: stale_login_world_def)
  have e: "asyncStorage empty_world LOGIN_ATTEMPTS = None" by (simp add: empty_world_def)
  from recordAttempt_effect [of sample_runtime Login stale_login_world 5]
       recordAttempt_effect [of sample_runtime Login empty_world 0]
       c5 c0 d k1 k0 s e
  show ?thesis by (auto simp: sample_accepts)
qed

text \<open>
  C6, as the specification words it (the record of count + 1 after every prior count),
  fails at a stored count of \<open>2 ^ 53\<close>: \<^verbatim>\<open>count + 1\<close> is \<open>2 ^ 53\<close> again in
  doubles, and the failure is recorded under the same count, after the capped delay.
\<close>

theorem recordAttempt_effect_counterexample:
  "count (fst (getAttemptData sample_runtime LOGIN_ATTEMPTS saturated_login_world))
     = JNum 9007199254740992
   \<and> recordAttempt sample_runtime Login False saturated_login_world
       = (Inr (), saturated_login_world
            \<lparr>asyncStorage := (asyncStorage saturated_login_world)(LOGIN_ATTEMPTS \<mapsto>
                JSON_stringify sample_runtime
                  (attemptJson sample_runtime 9007199254740992 1767268800000)),
             clock := 1767268810000\<rparr>)
   \<and> attemptJson sample_runtime 9007199254740992 1767268800000
       \<noteq> attemptJson sample_runtime (9007199254740992 + 1) 1767268800000"
proof -
  have c: "count (fst (getAttemptData sample_runtime (attempts_key Login) saturated_login_world))
      = JNum 9007199254740992"
    by (simp add: saturated_login_data)
  have d: "double_add1 9007199254740992 = 9007199254740992"
    by (simp add: double_add1_def)
  have k: "clock saturated_login_world = 1767268800000"
    by (simp add: saturated_login_world_def)
  have b: "calculateBackoffDelay 9007199254740992 (Num 1000) (Num 10000) = Num 10000"
    by (simp add: calculateBackoffDelay_infinite)
  from recordAttempt_failed_delay [OF c sample_accepts] c
  show ?thesis by (auto simp: d k b attemptJson_def)
qed

section \<open>Tokens round-trip\<close>

text \<open>
  C7. On a platform whose stores accept every call, for all token strings \<open>a\<close> and
  \<open>r\<close> and every device, \<^verbatim>\<open>storeTokens(a, r)\<close> resolves and \<^verbatim>\<open>getTokens()\<close> then
  returns exactly \<open>a\<close> and \<open>r\<close>.
\<close>

theorem storeTokens_getTokens:
  assumes "never_rejects rt"
  shows "\<exists>w1. storeTokens rt a r w = (Inr (), w1)
           \<and> getTokens rt w1 = (Inr \<lparr>accessToken = Some a, refreshToken = Some r\<rparr>, w1)"
proof -
  from assms have ok: "\<not> rejects rt b c w'" for b c w'
    by (simp add: never_rejects_def)
  let ?b = "selectedStore rt"
  let ?w1 = "put_items ?b ((items ?b w)(ACCESS_TOKEN \<mapsto> a, REFRESH_TOKEN \<mapsto> r,
                LAST_LOGIN \<mapsto> toISOString rt (clock w))) w"
  have "storeTokens rt a r w = (Inr (), ?w1)"
    by (simp add: storeTokens_def setSecureItem_alt ok)
  moreover have "getTokens rt ?w1 = (Inr \<lparr>accessToken = Some a, refreshToken = Some r\<rparr>, ?w1)"
    by (simp add: getTokens_alt ok)
  ultimately show ?thesis by blast
qed

text \<open>
  An access token with an empty refresh token on the sample platform.
\<close>

theorem storeTokens_getTokens_witness:
  "never_rejects sample_runtime
   \<and> (\<exists>w1. storeTokens sample_runtime ''token-a'' '''' empty_world = (Inr (), w1)
         \<and> getTokens sample_runtime w1
             = (Inr \<lparr>accessToken = Some ''token-a'', refreshToken = Some ''''\<rparr>, w1))"
  using storeTokens_getTokens [OF sample_never_rejects, of "''token-a''" "''''" empty_world]
    sample_never_rejects
  by simp

section \<open>Signing out\<close>

text \<open>
  C8. For every platform and device, after a \<^verbatim>\<open>clearAuthData()\<close> that resolved,
  \<^verbatim>\<open>getTokens()\<close> returns both tokens \<^verbatim>\<open>null\<close> and \<^verbatim>\<open>getUserData()\<close> returns
  \<^verbatim>\<open>null\<close>.
\<close>

theorem clearAuthData_then_absent:
  assumes "clearAuthData rt w = (Inr u, w1)"
  shows "getTokens rt w1 = (Inr \<lparr>accessToken = None, refreshToken = None\<rparr>, w1)
           \<and> getUserData rt w1 = (Inr JNull, w1)"
proof -
  let ?b = "selectedStore rt"
  from assms have "w1 = put_items ?b ((items ?b w)(ACCESS_TOKEN := None, REFRESH_TOKEN := None,
                USER_DATA := None, LAST_LOGIN := None)) w"
    by (simp add: clearAuthData_def removeSecureItem_alt split: if_splits)
  then have "items ?b w1 ACCESS_TOKEN = None" "items ?b w1 REFRESH_TOKEN = None"
    "items ?b w1 USER_DATA = None" by simp_all
  then show ?thesis by (simp add: getTokens_alt getUserData_absent)
qed

text \<open>
  The signed-in device on the sample platform.
\<close>

theorem clearAuthData_then_absent_witness:
  "clearAuthData sample_runtime signed_in_world
     = (Inr (), signed_in_world\<lparr>secureStore := Map.empty\<rparr>)
   \<and> secureStore signed_in_world ACCESS_TOKEN = Some ''token-a''
   \<and> getTokens sample_runtime (signed_in_world\<lparr>secureStore := Map.empty\<rparr>)
       = (Inr \<lparr>accessToken = None, refreshToken = None\<rparr>, signed_in_world\<lparr>secureStore := Map.empty\<rparr>)
   \<and> getUserData sample_runtime (signed_in_world\<lparr>secureStore := Map.empty\<rparr>)
       = (Inr JNull, signed_in_world\<lparr>secureStore := Map.empty\<rparr>)"
  using clearAuthData_then_absent [OF clear_signed_in] clear_signed_in
  by (simp add: signed_in_world_def)

section \<open>A record without a timestamp\<close>

text \<open>
  C10. For either kind: when the stored record parses to an object whose \<^verbatim>\<open>count\<close> is
  a number at or above the maximum and whose \<^verbatim>\<open>lastAttempt\<close> is missing or
  \<^verbatim>\<open>null\<close>, the check returns \<^verbatim>\<open>isLimited = false\<close> and leaves the device, and
  with it the record, as it was.
\<close>

theorem missing_timestamp_fails_open:
  assumes "asyncStorage w (attempts_key k) = Some s"
    and "JSON_parse rt s = Some (JObj fs)"
    and "map_of fs ''count'' = Some (JNum n)" and "max_attempts k \<le> n"
    and "map_of fs ''lastAttempt'' = None \<or> map_of fs ''lastAttempt'' = Some JNull"
  shows "checkRateLimit rt k w = (Inr notLimited, w) \<and> \<not> isLimited notLimited
           \<and> asyncStorage w (attempts_key k) = Some s"
proof -
  have "lastAttempt (fst (getAttemptData rt (attempts_key k) w)) = None"
    using assms by (auto simp: getAttemptData_def getItem_def noAttempts_def)
  then show ?thesis using assms(1) by (simp add: checkRateLimit_alt notLimited_def)
qed

text \<open>
  The login record \<^verbatim>\<open>{"count":7}\<close> on the sample platform.
\<close>

theorem missing_timestamp_fails_open_witness:
  \<open>asyncStorage untimed_login_world LOGIN_ATTEMPTS = Some ''{"count":7}''
   \<and> JSON_parse sample_runtime ''{"count":7}'' = Some (JObj [(''count'', JNum 7)])
   \<and> map_of [(''count'', JNum 7)] ''count'' = Some (JNum 7) \<and> (5::int) \<le> 7
   \<and> map_of [(''count'', JNum 7)] ''lastAttempt'' = None
   \<and> checkRateLimit sample_runtime Login untimed_login_world = (Inr notLimited, untimed_login_world)\<close>
proof -
  have a: \<open>asyncStorage untimed_login_world (attempts_key Login) = Some ''{"count":7}''\<close>
    by (simp add: untimed_login_world_def)
  have b: \<open>JSON_parse sample_runtime ''{"count":7}'' = Some (JObj [(''count'', JNum 7)])\<close>
  proof -
    have \<open>sample_parse ''{"count":7}'' = Some (JObj [(''count'', JNum 7)])\<close> by code_simp
    then show ?thesis by (simp add: sample_runtime_def)
  qed
  have c: "map_of [(''count'', JNum 7)] ''count'' = Some (JNum 7)" by simp
  have d: "max_attempts Login \<le> 7" by simp
  have e: "map_of [(''count'', JNum 7)] ''lastAttempt'' = None
             \<or> map_of [(''count'', JNum 7)] ''lastAttempt'' = Some JNull" by simp
  from missing_timestamp_fails_open [OF a b c d e] a b show ?thesis by simp
qed

end
